theory Spec2Isabelle
  imports Complex_Main "HOL-Library.AList"
begin

section \<open>Values of the JavaScript runtime\<close>

text \<open>
  The guard \<^verbatim>\<open>isHookPayloadOf\<close> of \<^verbatim>\<open>src/types.ts\<close> receives a value of static type
  \<^verbatim>\<open>unknown\<close>: in every use shown by the repository it is the result of \<^verbatim>\<open>JSON.parse\<close>.
  A value is therefore \<^verbatim>\<open>undefined\<close>, \<^verbatim>\<open>null\<close>, a boolean, a number, a string, an array
  or a plain object with data properties (own properties only, in insertion order).
  Numbers are IEEE doubles; the development never computes with them, it only compares them,
  so the finite ones are embedded into the rationals (\<open>+0\<close> and \<open>-0\<close> coincide, as they do
  under \<^verbatim>\<open>===\<close>).
\<close>

datatype jsnumber = Fin rat | PosInfinity | NegInfinity | NaN

datatype jsvalue =
    JUndefined
  | JNull
  | JBool bool
  | JNum jsnumber
  | JStr string
  | JArr "jsvalue list"
  | JObj "(string \<times> jsvalue) list"

text \<open>Errors are values: the only exception the operators below can raise is a \<^verbatim>\<open>TypeError\<close>;
  a handler may throw any value.\<close>

datatype js_error = TypeError | Thrown jsvalue

text \<open>\<^verbatim>\<open>typeof v\<close>. Note \<^verbatim>\<open>typeof null === "object"\<close> and \<^verbatim>\<open>typeof [] === "object"\<close>.\<close>

fun js_typeof :: "jsvalue \<Rightarrow> string" where
  "js_typeof JUndefined = ''undefined''"
| "js_typeof JNull = ''object''"
| "js_typeof (JBool b) = ''boolean''"
| "js_typeof (JNum n) = ''number''"
| "js_typeof (JStr s) = ''string''"
| "js_typeof (JArr xs) = ''object''"
| "js_typeof (JObj ps) = ''object''"

text \<open>The canonical decimal numeral of an array index, as used for the property keys
  \<^verbatim>\<open>"0"\<close>, \<^verbatim>\<open>"1"\<close>, ... of an array.\<close>

definition digit_char :: "nat \<Rightarrow> char" where
  "digit_char d =
     (if d = 0 then CHR ''0'' else if d = 1 then CHR ''1'' else if d = 2 then CHR ''2''
      else if d = 3 then CHR ''3'' else if d = 4 then CHR ''4'' else if d = 5 then CHR ''5''
      else if d = 6 then CHR ''6'' else if d = 7 then CHR ''7'' else if d = 8 then CHR ''8''
      else CHR ''9'')"

fun index_key :: "nat \<Rightarrow> string" where
  "index_key n =
     (if n < 10 then [digit_char n] else index_key (n div 10) @ [digit_char (n mod 10)])"

declare index_key.simps [simp del]

text \<open>
  The own properties of a value that is an object in the sense of \<^verbatim>\<open>typeof\<close>:
  the data properties of a plain object; the indices and \<^verbatim>\<open>length\<close> of an array.
  \<open>None\<close> means that the value has no own property of that name.
  The program only ever asks for the key \<^verbatim>\<open>hook_event_name\<close>, which no standard prototype
  defines, so inherited properties play no role and are left out.
\<close>

fun own_property :: "jsvalue \<Rightarrow> string \<Rightarrow> jsvalue option" where
  "own_property (JObj ps) k = map_of ps k"
| "own_property (JArr xs) k =
     (if k = ''length'' then Some (JNum (Fin (of_nat (length xs))))
      else map_of (zip (map index_key [0..<length xs]) xs) k)"
| "own_property v k = None"

text \<open>\<^verbatim>\<open>k in v\<close>: raises a \<^verbatim>\<open>TypeError\<close> when the right operand is not an object
  (a primitive, \<^verbatim>\<open>null\<close> or \<^verbatim>\<open>undefined\<close>).\<close>

fun js_in :: "string \<Rightarrow> jsvalue \<Rightarrow> js_error + bool" where
  "js_in k (JObj ps) = Inr (own_property (JObj ps) k \<noteq> None)"
| "js_in k (JArr xs) = Inr (own_property (JArr xs) k \<noteq> None)"
| "js_in k v = Inl TypeError"

text \<open>\<^verbatim>\<open>v.k\<close>, for a key that no wrapper object or prototype defines (the program reads
  \<^verbatim>\<open>hook_event_name\<close> only): raises a \<^verbatim>\<open>TypeError\<close> on \<^verbatim>\<open>null\<close> and \<^verbatim>\<open>undefined\<close>; on the
  other primitives the property is looked up on the wrapper object, which does not have it;
  a missing property reads as \<^verbatim>\<open>undefined\<close>.\<close>

fun js_get :: "jsvalue \<Rightarrow> string \<Rightarrow> js_error + jsvalue" where
  "js_get JUndefined k = Inl TypeError"
| "js_get JNull k = Inl TypeError"
| "js_get v k = Inr (case own_property v k of None \<Rightarrow> JUndefined | Some x \<Rightarrow> x)"

text \<open>\<^verbatim>\<open>v === s\<close> and \<^verbatim>\<open>v !== null\<close> for a string \<open>s\<close>: strict equality never converts,
  so a value equals a string only when it is that string, and equals \<^verbatim>\<open>null\<close> only
  when it is \<^verbatim>\<open>null\<close>.\<close>

definition js_strict_eq_string :: "jsvalue \<Rightarrow> string \<Rightarrow> bool" where
  "js_strict_eq_string v s = (case v of JStr t \<Rightarrow> t = s | _ \<Rightarrow> False)"

definition js_strict_neq_null :: "jsvalue \<Rightarrow> bool" where
  "js_strict_neq_null v = (case v of JNull \<Rightarrow> False | _ \<Rightarrow> True)"

section \<open>The event taxonomy\<close>

text \<open>\<^verbatim>\<open>HookEventName\<close> (types.ts, lines 13-19): a closed union of six string literals.\<close>

datatype HookEventName =
    BeforeShellExecution
  | BeforeMCPExecution
  | AfterFileEdit
  | BeforeReadFile
  | BeforeSubmitPrompt
  | Stop

fun event_name :: "HookEventName \<Rightarrow> string" where
  "event_name BeforeShellExecution = ''beforeShellExecution''"
| "event_name BeforeMCPExecution = ''beforeMCPExecution''"
| "event_name AfterFileEdit = ''afterFileEdit''"
| "event_name BeforeReadFile = ''beforeReadFile''"
| "event_name BeforeSubmitPrompt = ''beforeSubmitPrompt''"
| "event_name Stop = ''stop''"

definition all_events :: "HookEventName list" where
  "all_events =
     [BeforeShellExecution, BeforeMCPExecution, AfterFileEdit, BeforeReadFile,
      BeforeSubmitPrompt, Stop]"

section \<open>The runtime discriminant guard\<close>

text \<open>
  \<^verbatim>\<open>isHookPayloadOf\<close> (types.ts, lines 184-194):
  \<^verbatim>\<open>
  return (
      typeof payload === "object" &&
      payload !== null &&
      "hook_event_name" in payload &&
      (payload as HookPayloadBase).hook_event_name === event
  );
  \<close>
  \<^verbatim>\<open>&&\<close> evaluates its right operand only when the left one is true, and an exception
  raised by an operand is the result of the whole expression.
\<close>

definition isHookPayloadOf :: "jsvalue \<Rightarrow> HookEventName \<Rightarrow> js_error + bool" where
  "isHookPayloadOf payload event =
     (if js_typeof payload = ''object'' then
        if js_strict_neq_null payload then
          case js_in ''hook_event_name'' payload of
            Inl err \<Rightarrow> Inl err
          | Inr False \<Rightarrow> Inr False
          | Inr True \<Rightarrow>
              (case js_get payload ''hook_event_name'' of
                 Inl err \<Rightarrow> Inl err
               | Inr d \<Rightarrow> Inr (js_strict_eq_string d (event_name event)))
        else Inr False
      else Inr False)"

section \<open>The shape registry: responses\<close>

text \<open>
  The response types of types.ts, read as predicates on runtime values: a value has an
  interface type when it is an object whose required properties are present with the
  declared types and whose optional properties, when present, have the declared type.
  Extra properties are allowed, as in TypeScript's structural typing.
\<close>

text \<open>\<^verbatim>\<open>export type HookPermission = "allow" | "deny" | "ask";\<close> (line 36).\<close>

definition HookPermission :: "string list" where
  "HookPermission = [''allow'', ''deny'', ''ask'']"

text \<open>A required property \<open>k\<close> whose type is a union of string literals.\<close>

definition literal_property :: "(string \<times> jsvalue) list \<Rightarrow> string \<Rightarrow> string list \<Rightarrow> bool" where
  "literal_property fs k literals =
     (case map_of fs k of Some (JStr p) \<Rightarrow> p \<in> set literals | _ \<Rightarrow> False)"

text \<open>An optional property \<^verbatim>\<open>k?: string\<close>.\<close>

definition optional_string :: "(string \<times> jsvalue) list \<Rightarrow> string \<Rightarrow> bool" where
  "optional_string fs k =
     (case map_of fs k of None \<Rightarrow> True | Some JUndefined \<Rightarrow> True | Some (JStr s) \<Rightarrow> True
      | _ \<Rightarrow> False)"

text \<open>\<^verbatim>\<open>HookPermissionResponse\<close> (lines 41-45):
  \<^verbatim>\<open>{ permission: HookPermission; userMessage?: string; agentMessage?: string }\<close>.\<close>

definition HookPermissionResponse :: "jsvalue \<Rightarrow> bool" where
  "HookPermissionResponse v =
     (case v of
        JObj fs \<Rightarrow>
          literal_property fs ''permission'' HookPermission \<and>
          optional_string fs ''userMessage'' \<and> optional_string fs ''agentMessage''
      | _ \<Rightarrow> False)"

text \<open>\<^verbatim>\<open>BeforeReadFileResponse\<close> (lines 116-118): \<^verbatim>\<open>{ permission: "allow" | "deny" }\<close>.\<close>

definition BeforeReadFileResponse :: "jsvalue \<Rightarrow> bool" where
  "BeforeReadFileResponse v =
     (case v of
        JObj fs \<Rightarrow> literal_property fs ''permission'' [''allow'', ''deny'']
      | _ \<Rightarrow> False)"

text \<open>\<^verbatim>\<open>BeforeSubmitPromptResponse\<close> (lines 131-133): \<^verbatim>\<open>{ continue: boolean }\<close>.\<close>

definition BeforeSubmitPromptResponse :: "jsvalue \<Rightarrow> bool" where
  "BeforeSubmitPromptResponse v =
     (case v of
        JObj fs \<Rightarrow> (case map_of fs ''continue'' of Some (JBool b) \<Rightarrow> True | _ \<Rightarrow> False)
      | _ \<Rightarrow> False)"

text \<open>\<^verbatim>\<open>void\<close> (\<^verbatim>\<open>AfterFileEditResponse\<close>, \<^verbatim>\<open>StopResponse\<close>): the handler returns nothing.\<close>

definition VoidResponse :: "jsvalue \<Rightarrow> bool" where
  "VoidResponse v = (case v of JUndefined \<Rightarrow> True | _ \<Rightarrow> False)"

text \<open>\<^verbatim>\<open>HookResponseMap\<close> (lines 162-169): the response type of each event;
  \<^verbatim>\<open>BeforeShellExecutionResponse\<close> and \<^verbatim>\<open>BeforeMCPExecutionResponse\<close> are aliases of
  \<^verbatim>\<open>HookPermissionResponse\<close> (lines 58 and 73).\<close>

fun HookResponseMap :: "HookEventName \<Rightarrow> jsvalue \<Rightarrow> bool" where
  "HookResponseMap BeforeShellExecution = HookPermissionResponse"
| "HookResponseMap BeforeMCPExecution = HookPermissionResponse"
| "HookResponseMap AfterFileEdit = VoidResponse"
| "HookResponseMap BeforeReadFile = BeforeReadFileResponse"
| "HookResponseMap BeforeSubmitPrompt = BeforeSubmitPromptResponse"
| "HookResponseMap Stop = VoidResponse"

section \<open>The configuration shape validator\<close>

text \<open>\<^verbatim>\<open>HookCommandConfig\<close> (types.ts, lines 201-207): \<^verbatim>\<open>{ command: string }\<close>.\<close>

definition HookCommandConfig :: "jsvalue \<Rightarrow> bool" where
  "HookCommandConfig v =
     (case v of
        JObj fs \<Rightarrow> (case map_of fs ''command'' of Some (JStr c) \<Rightarrow> True | _ \<Rightarrow> False)
      | _ \<Rightarrow> False)"

datatype config_error =
    NotARegistrationObject
  | UnsupportedVersion
  | HooksNotAMapping
  | UnknownHookKey string
  | EntriesNotAList string
  | EntryWithoutCommand string

text \<open>
  Modelled from the spec: the check of the \<^verbatim>\<open>hooks\<close> mapping by the configuration shape
  validator, which is missing from the sources (types.ts declares only the type
  \<^verbatim>\<open>CursorHooksConfig\<close>, lines 215-218; the README refers to a \<^verbatim>\<open>schema/hooks.schema.json\<close>
  that is not among them). Section 4.4 of the spec: the keys of \<^verbatim>\<open>hooks\<close> are drawn only from
  the six events and its values are ordered lists of registration entries; a key outside the
  closed set, or an entry missing its command string, is rejected.
\<close>

fun check_hooks :: "(string \<times> jsvalue) list \<Rightarrow> config_error option" where
  "check_hooks [] = None"
| "check_hooks ((k, v) # rest) =
     (if k \<notin> set (map event_name all_events) then Some (UnknownHookKey k)
      else case v of
             JArr entries \<Rightarrow>
               if list_all HookCommandConfig entries then check_hooks rest
               else Some (EntryWithoutCommand k)
           | _ \<Rightarrow> Some (EntriesNotAList k))"

text \<open>
  Modelled from the spec: the configuration shape validator itself, missing from the
  sources as said above. Section 4.4: a registration file has a version marker that is
  exactly the number 1 (any other value is a rejected configuration) and a \<^verbatim>\<open>hooks\<close> field
  that is a mapping checked as above; unknown top-level fields are tolerated. A rejection is
  reported as a value (\<open>Inl\<close>), it does not raise.
\<close>

definition validate_config :: "jsvalue \<Rightarrow> config_error + unit" where
  "validate_config v =
     (case v of
        JObj fs \<Rightarrow>
          (case map_of fs ''version'' of
             Some (JNum (Fin n)) \<Rightarrow>
               if n = 1 then
                 (case map_of fs ''hooks'' of
                    Some (JObj hs) \<Rightarrow>
                      (case check_hooks hs of None \<Rightarrow> Inr () | Some err \<Rightarrow> Inl err)
                  | _ \<Rightarrow> Inl HooksNotAMapping)
               else Inl UnsupportedVersion
           | _ \<Rightarrow> Inl UnsupportedVersion)
      | _ \<Rightarrow> Inl NotARegistrationObject)"

section \<open>Handler dispatch\<close>

text \<open>
  The conversion of a value to a string, used when a value is a property key
  (\<^verbatim>\<open>handlers[payload.hook_event_name]\<close>) and when it is interpolated into a template
  literal. The text of a number is left to the parameter \<open>fmt\<close>. An array joins the texts
  of its elements with commas, \<^verbatim>\<open>null\<close> and \<^verbatim>\<open>undefined\<close> elements giving the empty text.
\<close>

fun js_to_string :: "(jsnumber \<Rightarrow> string) \<Rightarrow> jsvalue \<Rightarrow> string"
  and js_join :: "(jsnumber \<Rightarrow> string) \<Rightarrow> jsvalue list \<Rightarrow> string" where
  "js_to_string fmt JUndefined = ''undefined''"
| "js_to_string fmt JNull = ''null''"
| "js_to_string fmt (JBool b) = (if b then ''true'' else ''false'')"
| "js_to_string fmt (JNum n) = fmt n"
| "js_to_string fmt (JStr s) = s"
| "js_to_string fmt (JArr xs) = js_join fmt xs"
| "js_to_string fmt (JObj ps) = ''[object Object]''"
| "js_join fmt [] = []"
| "js_join fmt (x # xs) =
     (case x of JUndefined \<Rightarrow> [] | JNull \<Rightarrow> [] | _ \<Rightarrow> js_to_string fmt x) @
     (if xs = [] then [] else '','' @ js_join fmt xs)"

text \<open>
  A handler (\<^verbatim>\<open>HookHandler\<close>, types.ts lines 177-179) takes the payload and returns its
  response, possibly after suspending; it may perform effects of its own and it may throw.
  It is a function on an explicit world \<open>'w\<close>: it returns the awaited response (or the
  thrown value) and the world it leaves behind. A handler returning nothing returns
  \<^verbatim>\<open>undefined\<close>.
  The table \<^verbatim>\<open>handlers\<close> is a \<^verbatim>\<open>Partial<Record<HookEventName, HookHandler>>\<close>: member access
  \<^verbatim>\<open>handlers[k]\<close> yields a handler or \<^verbatim>\<open>undefined\<close> (\<open>None\<close>).
\<close>

type_synonym 'w HookHandler = "jsvalue \<Rightarrow> 'w \<Rightarrow> (js_error + jsvalue) \<times> 'w"

type_synonym 'w handler_table = "string \<Rightarrow> 'w HookHandler option"

text \<open>What the dispatching script does besides running the handler:
  \<^item> \<open>Printed r\<close>: \<^verbatim>\<open>console.log(JSON.stringify(r))\<close>, normal completion;
  \<^item> \<open>NoOutput\<close>: nothing is printed, normal completion;
  \<^item> \<open>ExitWith msg code\<close>: \<^verbatim>\<open>console.error(msg); process.exit(code)\<close>;
  \<^item> \<open>Uncaught err\<close>: an exception leaves the script.\<close>

datatype dispatch_outcome =
    Printed jsvalue
  | NoOutput
  | ExitWith string nat
  | Uncaught js_error

text \<open>
  The dispatching script of the README ("Combining handlers"), after the payload is decoded:
  \<^verbatim>\<open>
  const handler = handlers[payload.hook_event_name];
  if (handler) {
    const response = await handler(payload as never);
    if (response !== undefined) {
      console.log(JSON.stringify(response));
    }
  } else {
    console.error(`No handler for ${payload.hook_event_name}`);
    process.exit(1);
  }
  \<close>
\<close>

definition dispatch ::
  "(jsnumber \<Rightarrow> string) \<Rightarrow> 'w handler_table \<Rightarrow> jsvalue \<Rightarrow> 'w \<Rightarrow> dispatch_outcome \<times> 'w" where
  "dispatch fmt handlers payload w =
     (case js_get payload ''hook_event_name'' of
        Inl err \<Rightarrow> (Uncaught err, w)
      | Inr d \<Rightarrow>
          (case handlers (js_to_string fmt d) of
             Some handler \<Rightarrow>
               (case handler payload w of
                  (Inl err, w') \<Rightarrow> (Uncaught err, w')
                | (Inr response, w') \<Rightarrow>
                    (if response \<noteq> JUndefined then Printed response else NoOutput, w'))
           | None \<Rightarrow> (ExitWith (''No handler for '' @ js_to_string fmt d) 1, w)))"

section \<open>The guard over a mutable store\<close>

text \<open>
  JavaScript objects and arrays are mutable and are passed by reference. To state that the
  guard changes nothing, the same function is written once more over an explicit store:
  a value is a primitive or a reference, the store maps every reference to the object or
  array it denotes, and each operator takes the store and returns it with its result.
\<close>

type_synonym addr = nat

datatype ref_value = RUndefined | RNull | RBool bool | RNum jsnumber | RStr string | RRef addr

datatype heap_object = HObject "(string \<times> ref_value) list" | HArray "ref_value list"

type_synonym heap = "addr \<Rightarrow> heap_object"

fun ref_typeof :: "ref_value \<Rightarrow> string" where
  "ref_typeof RUndefined = ''undefined''"
| "ref_typeof RNull = ''object''"
| "ref_typeof (RBool b) = ''boolean''"
| "ref_typeof (RNum n) = ''number''"
| "ref_typeof (RStr s) = ''string''"
| "ref_typeof (RRef a) = ''object''"

fun heap_own_property :: "heap_object \<Rightarrow> string \<Rightarrow> ref_value option" where
  "heap_own_property (HObject ps) k = map_of ps k"
| "heap_own_property (HArray xs) k =
     (if k = ''length'' then Some (RNum (Fin (of_nat (length xs))))
      else map_of (zip (map index_key [0..<length xs]) xs) k)"

fun ref_in :: "string \<Rightarrow> ref_value \<Rightarrow> heap \<Rightarrow> (js_error + bool) \<times> heap" where
  "ref_in k (RRef a) h = (Inr (heap_own_property (h a) k \<noteq> None), h)"
| "ref_in k v h = (Inl TypeError, h)"

fun ref_get :: "ref_value \<Rightarrow> string \<Rightarrow> heap \<Rightarrow> (js_error + ref_value) \<times> heap" where
  "ref_get RUndefined k h = (Inl TypeError, h)"
| "ref_get RNull k h = (Inl TypeError, h)"
| "ref_get (RRef a) k h =
     (Inr (case heap_own_property (h a) k of None \<Rightarrow> RUndefined | Some x \<Rightarrow> x), h)"
| "ref_get v k h = (Inr RUndefined, h)"

definition ref_strict_eq_string :: "ref_value \<Rightarrow> string \<Rightarrow> bool" where
  "ref_strict_eq_string v s = (case v of RStr t \<Rightarrow> t = s | _ \<Rightarrow> False)"

definition ref_strict_neq_null :: "ref_value \<Rightarrow> bool" where
  "ref_strict_neq_null v = (case v of RNull \<Rightarrow> False | _ \<Rightarrow> True)"

text \<open>\<^verbatim>\<open>isHookPayloadOf\<close> (types.ts, lines 184-194) with the store threaded through the
  operands of \<^verbatim>\<open>&&\<close> in evaluation order.\<close>

definition isHookPayloadOf_st ::
  "ref_value \<Rightarrow> HookEventName \<Rightarrow> heap \<Rightarrow> (js_error + bool) \<times> heap" where
  "isHookPayloadOf_st payload event h =
     (if ref_typeof payload = ''object'' then
        if ref_strict_neq_null payload then
          case ref_in ''hook_event_name'' payload h of
            (Inl err, h1) \<Rightarrow> (Inl err, h1)
          | (Inr False, h1) \<Rightarrow> (Inr False, h1)
          | (Inr True, h1) \<Rightarrow>
              (case ref_get payload ''hook_event_name'' h1 of
                 (Inl err, h2) \<Rightarrow> (Inl err, h2)
               | (Inr d, h2) \<Rightarrow> (Inr (ref_strict_eq_string d (event_name event)), h2))
        else (Inr False, h)
      else (Inr False, h))"

text \<open>A value in a store represents a tree-shaped value of the first section when the two
  agree on primitives and, behind each reference, property by property.\<close>

inductive represents :: "heap \<Rightarrow> ref_value \<Rightarrow> jsvalue \<Rightarrow> bool" for h :: heap where
  rep_undefined: "represents h RUndefined JUndefined"
| rep_null: "represents h RNull JNull"
| rep_bool: "represents h (RBool b) (JBool b)"
| rep_num: "represents h (RNum n) (JNum n)"
| rep_str: "represents h (RStr s) (JStr s)"
| rep_array: "h a = HArray vs \<Longrightarrow> list_all2 (represents h) vs ts \<Longrightarrow>
     represents h (RRef a) (JArr ts)"
| rep_object: "h a = HObject ps \<Longrightarrow> list_all2 (rel_prod (=) (represents h)) ps qs \<Longrightarrow>
     represents h (RRef a) (JObj qs)"

section \<open>Properties of the guard\<close>

subsection \<open>Auxiliary facts\<close>

lemma digit_char_not_h: "digit_char d \<noteq> CHR ''h''"
  by (simp add: digit_char_def)

lemma index_key_head: "index_key n \<noteq> [] \<and> hd (index_key n) \<noteq> CHR ''h''"
proof (induction n rule: index_key.induct)
  case (1 n)
  show ?case
  proof (cases "n < 10")
    case True
    then show ?thesis
      by (subst index_key.simps, subst index_key.simps) (simp add: digit_char_not_h)
  next
    case False
    with 1 have "index_key (n div 10) \<noteq> [] \<and> hd (index_key (n div 10)) \<noteq> CHR ''h''"
      by simp
    with False show ?thesis
      by (subst index_key.simps, subst index_key.simps) simp
  qed
qed

lemma index_key_not_discriminant: "index_key n \<noteq> ''hook_event_name''"
  using index_key_head [of n] by auto

lemma indices_lack_key:
  assumes "\<And>n. index_key n \<noteq> k"
  shows "map_of (zip (map index_key [0..<length xs]) xs) k = None"
proof -
  have "k \<notin> set (map index_key [0..<length xs])"
    using assms by auto
  moreover have "length (map index_key [0..<length xs]) = length xs"
    by simp
  ultimately show ?thesis
    by (simp only: map_of_zip_is_None not_False_eq_True)
qed

lemma indices_lack_discriminant:
  "map_of (zip (map index_key [0..<length xs]) xs) ''hook_event_name'' = None"
  by (rule indices_lack_key) (rule index_key_not_discriminant)

lemma array_lacks_discriminant: "own_property (JArr xs) ''hook_event_name'' = None"
  using indices_lack_discriminant [of xs] by simp

lemma event_name_inj: "event_name a = event_name b \<longleftrightarrow> a = b"
  by (cases a; cases b) simp_all

text \<open>The guard never raises, and it is true exactly for the values that have an own
  property \<^verbatim>\<open>hook_event_name\<close> holding the name of the event as a string.\<close>

lemma isHookPayloadOf_iff:
  "isHookPayloadOf v e = Inr (own_property v ''hook_event_name'' = Some (JStr (event_name e)))"
proof (cases v)
  case (JArr xs)
  then show ?thesis
    using array_lacks_discriminant [of xs]
    by (simp add: isHookPayloadOf_def js_strict_neq_null_def del: own_property.simps)
next
  case (JObj ps)
  show ?thesis
  proof (cases "map_of ps ''hook_event_name''")
    case None
    with JObj show ?thesis
      by (simp add: isHookPayloadOf_def js_strict_neq_null_def)
  next
    case (Some d)
    with JObj show ?thesis
      by (cases d)
         (simp_all add: isHookPayloadOf_def js_strict_neq_null_def js_strict_eq_string_def)
  qed
qed (simp_all add: isHookPayloadOf_def js_strict_neq_null_def)

lemma js_get_object:
  "js_typeof v = ''object'' \<Longrightarrow> v \<noteq> JNull \<Longrightarrow>
   js_get v k = Inr (case own_property v k of None \<Rightarrow> JUndefined | Some x \<Rightarrow> x)"
  by (cases v) simp_all

subsection \<open>Discrimination\<close>

text \<open>
  Claim C1. For every hook event \<open>E\<close> and every value \<open>P\<close> that is a non-null object whose
  \<^verbatim>\<open>hook_event_name\<close> field equals \<open>E\<close>, \<^verbatim>\<open>isHookPayloadOf(P, E)\<close> returns true, and for
  every other event \<open>E2\<close> it returns false.
\<close>

theorem guard_accepts_exactly_own_event:
  assumes "js_typeof P = ''object''" and "P \<noteq> JNull"
    and "js_get P ''hook_event_name'' = Inr (JStr (event_name E))"
  shows "isHookPayloadOf P E = Inr True \<and>
         (\<forall>E2. E2 \<noteq> E \<longrightarrow> isHookPayloadOf P E2 = Inr False)"
proof -
  from assms have "own_property P ''hook_event_name'' = Some (JStr (event_name E))"
    by (simp add: js_get_object split: option.splits)
  then show ?thesis
    by (simp add: isHookPayloadOf_iff event_name_inj)
qed

theorem guard_accepts_exactly_own_event_witness:
  "isHookPayloadOf
     (JObj [(''hook_event_name'', JStr ''beforeReadFile''), (''file_path'', JStr ''a.txt'')])
     BeforeReadFile = Inr True \<and>
   isHookPayloadOf
     (JObj [(''hook_event_name'', JStr ''beforeReadFile''), (''file_path'', JStr ''a.txt'')])
     BeforeSubmitPrompt = Inr False"
  using guard_accepts_exactly_own_event
    [of "JObj [(''hook_event_name'', JStr ''beforeReadFile''), (''file_path'', JStr ''a.txt'')]"
        BeforeReadFile]
  by simp

text \<open>
  Claim C2. \<^verbatim>\<open>isHookPayloadOf\<close> is total and never raises, for any input value and any
  requested event; on \<^verbatim>\<open>undefined\<close>, \<^verbatim>\<open>null\<close>, primitives, arrays and objects lacking the
  \<^verbatim>\<open>hook_event_name\<close> field it returns false.
\<close>

theorem guard_total_and_false_on_malformed:
  "(\<exists>r. isHookPayloadOf v e = Inr r) \<and>
   isHookPayloadOf JUndefined e = Inr False \<and>
   isHookPayloadOf JNull e = Inr False \<and>
   isHookPayloadOf (JBool b) e = Inr False \<and>
   isHookPayloadOf (JNum n) e = Inr False \<and>
   isHookPayloadOf (JStr s) e = Inr False \<and>
   isHookPayloadOf (JArr xs) e = Inr False \<and>
   (map_of ps ''hook_event_name'' = None \<longrightarrow> isHookPayloadOf (JObj ps) e = Inr False)"
  by (simp add: isHookPayloadOf_iff array_lacks_discriminant del: own_property.simps(2))

theorem guard_total_and_false_on_malformed_witness:
  "isHookPayloadOf (JObj [(''command'', JStr ''ls'')]) BeforeShellExecution = Inr False \<and>
   isHookPayloadOf (JArr [JStr ''beforeShellExecution'']) BeforeShellExecution = Inr False"
  using guard_total_and_false_on_malformed
    [of "JArr [JStr ''beforeShellExecution'']" BeforeShellExecution True "Fin 0" "[]"
        "[JStr ''beforeShellExecution'']" "[(''command'', JStr ''ls'')]"]
  by simp

text \<open>
  Claim C3. \<^verbatim>\<open>isHookPayloadOf(value, event)\<close> returns true whenever \<open>value\<close> is a non-null
  object whose \<^verbatim>\<open>hook_event_name\<close> field equals \<open>event\<close>, whatever its other fields: the
  result stays true when any other field is set to any value at all, or removed.
\<close>

theorem guard_inspects_only_discriminant:
  assumes "map_of ps ''hook_event_name'' = Some (JStr (event_name e))"
  shows "isHookPayloadOf (JObj ps) e = Inr True \<and>
         (\<forall>k x. k \<noteq> ''hook_event_name'' \<longrightarrow>
            isHookPayloadOf (JObj (AList.update k x ps)) e = Inr True \<and>
            isHookPayloadOf (JObj (AList.delete k ps)) e = Inr True)"
  using assms by (simp add: isHookPayloadOf_iff update_conv' delete_conv')

theorem guard_inspects_only_discriminant_witness:
  "isHookPayloadOf (JObj [(''hook_event_name'', JStr ''stop'')]) Stop = Inr True \<and>
   isHookPayloadOf
     (JObj (AList.update ''status'' (JNum (Fin 7)) [(''hook_event_name'', JStr ''stop'')])) Stop
     = Inr True"
proof -
  have "map_of [(''hook_event_name'', JStr ''stop'')] ''hook_event_name''
          = Some (JStr (event_name Stop))"
    by simp
  from guard_inspects_only_discriminant [OF this] show ?thesis
    by simp
qed

text \<open>
  Claim C9. For every input value, \<^verbatim>\<open>isHookPayloadOf\<close> returns true for at most one of the six
  events: no value is accepted as a payload of two distinct events.
\<close>

theorem guard_mutually_exclusive:
  "isHookPayloadOf v E = Inr True \<Longrightarrow> isHookPayloadOf v E' = Inr True \<Longrightarrow> E = E'"
  by (simp add: isHookPayloadOf_iff event_name_inj)

theorem guard_mutually_exclusive_witness:
  "isHookPayloadOf (JObj [(''hook_event_name'', JStr ''afterFileEdit'')]) AfterFileEdit = Inr True \<and>
   isHookPayloadOf (JObj [(''hook_event_name'', JStr ''afterFileEdit'')]) Stop \<noteq> Inr True"
proof -
  have t: "isHookPayloadOf (JObj [(''hook_event_name'', JStr ''afterFileEdit'')]) AfterFileEdit
             = Inr True"
    by (simp add: isHookPayloadOf_iff)
  have "AfterFileEdit = Stop"
    if "isHookPayloadOf (JObj [(''hook_event_name'', JStr ''afterFileEdit'')]) Stop = Inr True"
    using guard_mutually_exclusive [OF t that] .
  with t show ?thesis by auto
qed

text \<open>
  Claim C10. For any two non-null object inputs whose \<^verbatim>\<open>hook_event_name\<close> fields are equal
  (both present with the same value, or both absent), \<^verbatim>\<open>isHookPayloadOf\<close> returns the same
  result for every requested event: no other field of the input influences it.
\<close>

theorem guard_noninterference:
  assumes "js_typeof v = ''object''" and "v \<noteq> JNull"
    and "js_typeof v' = ''object''" and "v' \<noteq> JNull"
    and "own_property v ''hook_event_name'' = own_property v' ''hook_event_name''"
  shows "isHookPayloadOf v e = isHookPayloadOf v' e"
  using assms by (simp add: isHookPayloadOf_iff)

theorem guard_noninterference_witness:
  "isHookPayloadOf
     (JObj [(''hook_event_name'', JStr ''stop''), (''status'', JStr ''completed'')]) Stop =
   isHookPayloadOf
     (JObj [(''conversation_id'', JNum (Fin 3)), (''hook_event_name'', JStr ''stop'')]) Stop"
  using guard_noninterference
    [of "JObj [(''hook_event_name'', JStr ''stop''), (''status'', JStr ''completed'')]"
        "JObj [(''conversation_id'', JNum (Fin 3)), (''hook_event_name'', JStr ''stop'')]" Stop]
  by simp

subsection \<open>The guard over the store\<close>

lemma ref_in_heap: "snd (ref_in k v h) = h"
  by (cases v) simp_all

lemma ref_get_heap: "snd (ref_get v k h) = h"
  by (cases v) simp_all

lemma isHookPayloadOf_st_heap: "snd (isHookPayloadOf_st p e h) = h"
proof -
  obtain r where i: "ref_in ''hook_event_name'' p h = (r, h)"
    using ref_in_heap [of "''hook_event_name''" p h]
    by (cases "ref_in ''hook_event_name'' p h") simp
  obtain d where g: "ref_get p ''hook_event_name'' h = (d, h)"
    using ref_get_heap [of p "''hook_event_name''" h]
    by (cases "ref_get p ''hook_event_name'' h") simp
  show ?thesis
    unfolding isHookPayloadOf_st_def
    by (simp add: i g split: sum.split bool.split)
qed

lemma map_of_related:
  "list_all2 (rel_prod (=) R) ps qs \<Longrightarrow> rel_option R (map_of ps k) (map_of qs k)"
  by (induction ps qs rule: list_all2_induct) auto

text \<open>The guard over the store computes what the guard over trees computes, on every
  value that the store represents.\<close>

lemma isHookPayloadOf_st_refines:
  assumes "represents h v t"
  shows "isHookPayloadOf_st v e h = (isHookPayloadOf t e, h)"
  using assms
proof (cases rule: represents.cases)
  case (rep_array a vs ts)
  have "heap_own_property (HArray vs) ''hook_event_name'' = None"
    using indices_lack_discriminant [of vs] by simp
  with rep_array show ?thesis
    by (simp add: isHookPayloadOf_st_def isHookPayloadOf_iff array_lacks_discriminant
        ref_strict_neq_null_def del: own_property.simps heap_own_property.simps)
next
  case (rep_object a ps qs)
  from rep_object(4)
  have "rel_option (represents h) (map_of ps ''hook_event_name'') (map_of qs ''hook_event_name'')"
    by (rule map_of_related)
  then show ?thesis
  proof (cases rule: option.rel_cases)
    case None
    with rep_object(1-3) show ?thesis
      by (simp add: isHookPayloadOf_st_def isHookPayloadOf_iff ref_strict_neq_null_def)
  next
    case (Some x y)
    from Some(3) have "ref_strict_eq_string x (event_name e) \<longleftrightarrow> y = JStr (event_name e)"
      by (cases rule: represents.cases) (auto simp: ref_strict_eq_string_def)
    with Some(1,2) rep_object(1-3) show ?thesis
      by (simp add: isHookPayloadOf_st_def isHookPayloadOf_iff ref_strict_neq_null_def)
  qed
qed (simp_all add: isHookPayloadOf_st_def isHookPayloadOf_iff ref_strict_neq_null_def)

text \<open>
  Claim C7. Discrimination is pure and deterministic: an invocation of \<^verbatim>\<open>isHookPayloadOf\<close>
  leaves the store as it found it, a second invocation on the same arguments returns the
  same result, and an invocation does not change the result of any later invocation, on
  the same or on other arguments.
\<close>

theorem guard_pure:
  "snd (isHookPayloadOf_st p e h) = h \<and>
   isHookPayloadOf_st p e (snd (isHookPayloadOf_st p e h)) = isHookPayloadOf_st p e h \<and>
   isHookPayloadOf_st p' e' (snd (isHookPayloadOf_st p e h)) = isHookPayloadOf_st p' e' h"
  by (simp add: isHookPayloadOf_st_heap)

theorem guard_pure_witness:
  "isHookPayloadOf_st (RRef 0) Stop (\<lambda>a. HObject [(''hook_event_name'', RStr ''stop'')])
     = (Inr True, \<lambda>a. HObject [(''hook_event_name'', RStr ''stop'')]) \<and>
   isHookPayloadOf_st (RRef 0) Stop
     (snd (isHookPayloadOf_st (RRef 0) Stop (\<lambda>a. HObject [(''hook_event_name'', RStr ''stop'')])))
     = (Inr True, \<lambda>a. HObject [(''hook_event_name'', RStr ''stop'')])"
proof -
  have "isHookPayloadOf_st (RRef 0) Stop (\<lambda>a. HObject [(''hook_event_name'', RStr ''stop'')])
          = (Inr True, \<lambda>a. HObject [(''hook_event_name'', RStr ''stop'')])"
    by (simp add: isHookPayloadOf_st_def ref_strict_neq_null_def ref_strict_eq_string_def)
  with guard_pure [of "RRef 0" Stop "\<lambda>a. HObject [(''hook_event_name'', RStr ''stop'')]"]
  show ?thesis by simp
qed

section \<open>Properties of the response shapes\<close>

lemma literal_property_iff:
  "literal_property fs k ls \<longleftrightarrow> (\<exists>p. map_of fs k = Some (JStr p) \<and> p \<in> set ls)"
  by (auto simp: literal_property_def split: option.splits jsvalue.splits)

lemma BeforeReadFileResponse_permission:
  "(\<exists>v. BeforeReadFileResponse v \<and> own_property v ''permission'' = Some (JStr p))
     \<longleftrightarrow> p \<in> {''allow'', ''deny''}"
proof
  assume "\<exists>v. BeforeReadFileResponse v \<and> own_property v ''permission'' = Some (JStr p)"
  then obtain v where "BeforeReadFileResponse v" "own_property v ''permission'' = Some (JStr p)"
    by blast
  then show "p \<in> {''allow'', ''deny''}"
    by (cases v) (auto simp: BeforeReadFileResponse_def literal_property_iff)
next
  assume "p \<in> {''allow'', ''deny''}"
  then have "BeforeReadFileResponse (JObj [(''permission'', JStr p)])"
    by (simp add: BeforeReadFileResponse_def literal_property_def)
  moreover have "own_property (JObj [(''permission'', JStr p)]) ''permission'' = Some (JStr p)"
    by simp
  ultimately show "\<exists>v. BeforeReadFileResponse v \<and> own_property v ''permission'' = Some (JStr p)"
    by blast
qed

lemma HookPermissionResponse_permission:
  "(\<exists>v. HookPermissionResponse v \<and> own_property v ''permission'' = Some (JStr p))
     \<longleftrightarrow> p \<in> {''allow'', ''deny'', ''ask''}"
proof
  assume "\<exists>v. HookPermissionResponse v \<and> own_property v ''permission'' = Some (JStr p)"
  then obtain v where "HookPermissionResponse v" "own_property v ''permission'' = Some (JStr p)"
    by blast
  then show "p \<in> {''allow'', ''deny'', ''ask''}"
    by (cases v) (auto simp: HookPermissionResponse_def literal_property_iff HookPermission_def)
next
  assume "p \<in> {''allow'', ''deny'', ''ask''}"
  then have "HookPermissionResponse (JObj [(''permission'', JStr p)])"
    by (simp add: HookPermissionResponse_def literal_property_def optional_string_def
        HookPermission_def)
  moreover have "own_property (JObj [(''permission'', JStr p)]) ''permission'' = Some (JStr p)"
    by simp
  ultimately show "\<exists>v. HookPermissionResponse v \<and> own_property v ''permission'' = Some (JStr p)"
    by blast
qed

text \<open>
  Claim C4. The response shape of \<^verbatim>\<open>beforeReadFile\<close> admits exactly the two permission values
  \<^verbatim>\<open>allow\<close> and \<^verbatim>\<open>deny\<close> (\<^verbatim>\<open>ask\<close> is not among them), whereas the response shapes of
  \<^verbatim>\<open>beforeShellExecution\<close> and \<^verbatim>\<open>beforeMCPExecution\<close> admit exactly \<^verbatim>\<open>allow\<close>, \<^verbatim>\<open>deny\<close>
  and \<^verbatim>\<open>ask\<close>: a string \<open>p\<close> is the permission of some value of the response type if and
  only if it is one of these.
\<close>

theorem permission_values_of_responses:
  "((\<exists>v. HookResponseMap BeforeReadFile v \<and> own_property v ''permission'' = Some (JStr p))
      \<longleftrightarrow> p \<in> {''allow'', ''deny''}) \<and>
   ''ask'' \<notin> {''allow'', ''deny''} \<and>
   ((\<exists>v. HookResponseMap BeforeShellExecution v \<and> own_property v ''permission'' = Some (JStr p))
      \<longleftrightarrow> p \<in> {''allow'', ''deny'', ''ask''}) \<and>
   ((\<exists>v. HookResponseMap BeforeMCPExecution v \<and> own_property v ''permission'' = Some (JStr p))
      \<longleftrightarrow> p \<in> {''allow'', ''deny'', ''ask''})"
proof -
  have "''ask'' \<notin> {''allow'', ''deny''}"
    by simp
  then show ?thesis
    unfolding HookResponseMap.simps
    using BeforeReadFileResponse_permission [of p] HookPermissionResponse_permission [of p]
    by blast
qed

theorem permission_values_of_responses_witness:
  "(\<exists>v. HookResponseMap BeforeShellExecution v \<and>
        own_property v ''permission'' = Some (JStr ''ask'')) \<and>
   \<not> (\<exists>v. HookResponseMap BeforeReadFile v \<and>
        own_property v ''permission'' = Some (JStr ''ask''))"
  using permission_values_of_responses [of "''ask''"] by simp

section \<open>Properties of the configuration shape validator\<close>

lemma validate_config_accepts:
  "validate_config v = Inr () \<longleftrightarrow>
     (\<exists>fs hs. v = JObj fs \<and> map_of fs ''version'' = Some (JNum (Fin 1)) \<and>
        map_of fs ''hooks'' = Some (JObj hs) \<and> check_hooks hs = None)"
  by (cases v)
     (simp_all add: validate_config_def split: option.split jsvalue.split jsnumber.split)

lemma check_hooks_unknown_key:
  "(k, x) \<in> set hs \<Longrightarrow> k \<notin> set (map event_name all_events) \<Longrightarrow> check_hooks hs \<noteq> None"
proof (induction hs)
  case Nil
  then show ?case by simp
next
  case (Cons h hs)
  obtain k' v' where h: "h = (k', v')" by (cases h)
  show ?case
  proof (cases "k' \<in> set (map event_name all_events)")
    case False
    with h show ?thesis by simp
  next
    case True
    with Cons.prems h have "(k, x) \<in> set hs" by auto
    with Cons have "check_hooks hs \<noteq> None" by simp
    with h True show ?thesis by (simp split: jsvalue.split)
  qed
qed

text \<open>
  Claim C5. The configuration shape validator accepts a registration file only when its
  version marker is exactly the number 1; any other version value (for example 2) makes the
  configuration rejected.
\<close>

theorem validator_requires_version_1:
  "(validate_config v = Inr () \<longrightarrow> own_property v ''version'' = Some (JNum (Fin 1))) \<and>
   (n \<noteq> Fin 1 \<longrightarrow>
      validate_config (JObj [(''version'', JNum n), (''hooks'', JObj hs)])
        = Inl UnsupportedVersion)"
proof
  show "validate_config v = Inr () \<longrightarrow> own_property v ''version'' = Some (JNum (Fin 1))"
    by (auto simp: validate_config_accepts)
  show "n \<noteq> Fin 1 \<longrightarrow>
      validate_config (JObj [(''version'', JNum n), (''hooks'', JObj hs)])
        = Inl UnsupportedVersion"
    by (cases n) (simp_all add: validate_config_def)
qed

theorem validator_requires_version_1_witness:
  "validate_config
     (JObj [(''version'', JNum (Fin 1)),
            (''hooks'', JObj [(''beforeShellExecution'',
               JArr [JObj [(''command'', JStr ''./hooks/before-shell-execution.ts'')]])])])
     = Inr () \<and>
   validate_config (JObj [(''version'', JNum (Fin 2)), (''hooks'', JObj [])])
     = Inl UnsupportedVersion"
proof -
  have "validate_config
     (JObj [(''version'', JNum (Fin 1)),
            (''hooks'', JObj [(''beforeShellExecution'',
               JArr [JObj [(''command'', JStr ''./hooks/before-shell-execution.ts'')]])])])
     = Inr ()"
    by (simp add: validate_config_def all_events_def HookCommandConfig_def)
  moreover have "Fin 2 \<noteq> Fin 1"
    by simp
  ultimately show ?thesis
    using validator_requires_version_1
      [of "JObj [(''version'', JNum (Fin 1)),
            (''hooks'', JObj [(''beforeShellExecution'',
               JArr [JObj [(''command'', JStr ''./hooks/before-shell-execution.ts'')]])])]"
          "Fin 2" "[]"]
    by simp
qed

text \<open>
  Claim C6. The configuration shape validator rejects any registration file whose
  \<^verbatim>\<open>hooks\<close> mapping contains a key outside the closed six-event set, whatever the version and
  the other entries are.
\<close>

theorem validator_rejects_unknown_hook_key:
  assumes "own_property v ''hooks'' = Some (JObj hs)"
    and "(k, x) \<in> set hs"
    and "\<forall>e. k \<noteq> event_name e"
  shows "\<exists>err. validate_config v = Inl err"
proof -
  from assms(3) have "k \<notin> set (map event_name all_events)" by auto
  with assms(2) have "check_hooks hs \<noteq> None" by (rule check_hooks_unknown_key)
  with assms(1) have "validate_config v \<noteq> Inr ()"
    by (auto simp: validate_config_accepts)
  then show ?thesis by (cases "validate_config v") simp_all
qed

theorem validator_rejects_unknown_hook_key_witness:
  "\<exists>err. validate_config
     (JObj [(''version'', JNum (Fin 1)),
            (''hooks'', JObj [(''beforeReadFile'', JArr [JObj [(''command'', JStr ''./x.sh'')]]),
                              (''notAnEvent'', JArr [])])]) = Inl err"
proof -
  have "\<forall>e. ''notAnEvent'' \<noteq> event_name e"
  proof
    fix e show "''notAnEvent'' \<noteq> event_name e" by (cases e) simp_all
  qed
  then show ?thesis
    using validator_rejects_unknown_hook_key
      [of "JObj [(''version'', JNum (Fin 1)),
            (''hooks'', JObj [(''beforeReadFile'', JArr [JObj [(''command'', JStr ''./x.sh'')]]),
                              (''notAnEvent'', JArr [])])]"
          "[(''beforeReadFile'', JArr [JObj [(''command'', JStr ''./x.sh'')]]),
            (''notAnEvent'', JArr [])]" "''notAnEvent''" "JArr []"]
    by simp
qed

section \<open>Properties of dispatch\<close>

text \<open>
  Claim C8. For a handler table that registers only some of the six events, dispatching a
  payload whose discriminant names an unregistered event ends in the no-handler failure:
  the message is written to the error channel and the process exits with status 1; nothing
  is printed as a response, and no handler of the table runs (the world is left as it was,
  whatever the registered handlers would do to it).
\<close>

theorem dispatch_unregistered_event:
  assumes "js_get payload ''hook_event_name'' = Inr (JStr (event_name e))"
    and "handlers (event_name e) = None"
  shows "dispatch fmt handlers payload w = (ExitWith (''No handler for '' @ event_name e) 1, w)"
  using assms by (simp add: dispatch_def)

theorem dispatch_unregistered_event_witness:
  "dispatch (\<lambda>n. ''1'')
     (\<lambda>k. if k = ''stop'' then Some (\<lambda>p w. (Inr (JStr ''done''), Suc w)) else None)
     (JObj [(''hook_event_name'', JStr ''afterFileEdit''), (''file_path'', JStr ''a.ts'')])
     (0::nat)
   = (ExitWith ''No handler for afterFileEdit'' 1, 0)"
  using dispatch_unregistered_event
    [of "JObj [(''hook_event_name'', JStr ''afterFileEdit''), (''file_path'', JStr ''a.ts'')]"
        AfterFileEdit
        "\<lambda>k. if k = ''stop'' then Some (\<lambda>p w. (Inr (JStr ''done''), Suc w)) else None"
        "\<lambda>n. ''1''" "0::nat"]
  by simp

end
